theory Spec2Isabelle
  imports Main "HOL-Library.Word" "HOL-Library.Sublist"
begin

section \<open>Data model of trie/patricia.go\<close>

text \<open>
  A Go \<^verbatim>\<open>[]byte\<close> is modelled by its contents. Only \<^verbatim>\<open>branch.collapse\<close> tests a slice
  against \<^verbatim>\<open>nil\<close>; there (and for the \<^verbatim>\<open>nil\<close> literals that functions return) a slice is a
  \<open>bytes option\<close> with \<open>None\<close> for \<^verbatim>\<open>nil\<close>. Everywhere else the source only reads the
  length and the elements, on which a nil and an empty slice agree. The capacity of a
  slice is taken to be its length.
\<close>

type_synonym byte = "8 word"
type_synonym bytes = "byte list"

text \<open>\<^verbatim>\<open>const RADIX = 256\<close>\<close>

definition RADIX :: nat where
  "RADIX = 256"

text \<open>
  \<^verbatim>\<open>branch struct { Path [RADIX]ptrcKey; Value []byte }\<close>: the array is indexed by a byte,
  so it is a total function on \<open>byte\<close>. An empty slot is a slice of length 0.
\<close>

record branch =
  Path_b :: "byte \<Rightarrow> bytes"
  Value_b :: bytes

text \<open>\<^verbatim>\<open>leaf struct { Ext byte; Path ptrcKey; Value []byte }\<close>\<close>

record leaf =
  Ext :: byte
  Path :: bytes
  Value :: bytes

text \<open>A value of the interface \<^verbatim>\<open>patricia\<close> is a \<^verbatim>\<open>*branch\<close> or a \<^verbatim>\<open>*leaf\<close>.\<close>

datatype node = NBranch branch | NLeaf leaf

text \<open>
  The errors of the package. \<^verbatim>\<open>errors.Wrap(ErrInvalidPatricia, msg)\<close> keeps its message
  (without the formatted arguments); \<open>ErrGob\<close> stands for an error of encoding/gob.
\<close>

datatype error = ErrInvalidPatricia string | ErrPathDiverge | ErrGob

text \<open>
  Run-time panics of Go: \<open>IndexOutOfRange i n\<close> is \<^verbatim>\<open>index out of range [i] with length n\<close>,
  \<open>SliceBounds a n\<close> is \<^verbatim>\<open>slice bounds out of range [a:n]\<close>, \<open>NilDereference\<close> is the use of
  the element of an empty list.
\<close>

datatype panic = IndexOutOfRange nat nat | SliceBounds nat nat | NilDereference

definition pbind :: "panic + 'a \<Rightarrow> ('a \<Rightarrow> panic + 'b) \<Rightarrow> panic + 'b" where
  "pbind m f = (case m of Inl p \<Rightarrow> Inl p | Inr x \<Rightarrow> f x)"

text \<open>\<^verbatim>\<open>s[i]\<close>, \<^verbatim>\<open>s[a:]\<close> and \<^verbatim>\<open>s[:b]\<close> with their bounds checks.\<close>

definition elem_at :: "bytes \<Rightarrow> nat \<Rightarrow> panic + byte" where
  "elem_at s i = (if i < length s then Inr (s ! i) else Inl (IndexOutOfRange i (length s)))"

definition slice_from :: "bytes \<Rightarrow> nat \<Rightarrow> panic + bytes" where
  "slice_from s a = (if a \<le> length s then Inr (drop a s) else Inl (SliceBounds a (length s)))"

definition slice_to :: "bytes \<Rightarrow> nat \<Rightarrow> panic + bytes" where
  "slice_to s b = (if b \<le> length s then Inr (take b s) else Inl (SliceBounds b (length s)))"

text \<open>\<^verbatim>\<open>branch{}\<close>, and the assignment \<^verbatim>\<open>b.Path[i] = h\<close>.\<close>

definition empty_branch :: branch where
  "empty_branch = \<lparr>Path_b = (\<lambda>_. []), Value_b = []\<rparr>"

definition set_slot :: "branch \<Rightarrow> byte \<Rightarrow> bytes \<Rightarrow> branch" where
  "set_slot b i h = b\<lparr>Path_b := (Path_b b)(i := h)\<rparr>"

section \<open>Hashing\<close>

text \<open>
  \<^verbatim>\<open>blake2b.Sum256\<close> (golang.org/x/crypto) followed by \<^verbatim>\<open>[:]\<close> is the parameter \<open>H\<close> of every
  function that hashes.
\<close>

text \<open>The loop of \<^verbatim>\<open>branch.hash\<close>: \<^verbatim>\<open>for i := 0; i < RADIX; i++ { stream = append(stream, b.Path[i]...) }\<close>\<close>

function hash_loop :: "branch \<Rightarrow> nat \<Rightarrow> bytes \<Rightarrow> bytes" where
  "hash_loop b i stream =
     (if i < RADIX then hash_loop b (Suc i) (stream @ Path_b b (of_nat i)) else stream)"
  by pat_completeness auto
termination
  by (relation "measure (\<lambda>(b, i, stream). RADIX - i)") auto

declare hash_loop.simps [simp del]

definition branch_hash :: "(bytes \<Rightarrow> bytes) \<Rightarrow> branch \<Rightarrow> bytes" where
  "branch_hash H b = (let stream = hash_loop b 0 []; stream = stream @ Value_b b in H stream)"

definition leaf_hash :: "(bytes \<Rightarrow> bytes) \<Rightarrow> leaf \<Rightarrow> bytes" where
  "leaf_hash H l = (let stream = [Ext l] @ Path l; stream = stream @ Value l in H stream)"

fun node_hash :: "(bytes \<Rightarrow> bytes) \<Rightarrow> node \<Rightarrow> bytes" where
  "node_hash H (NBranch b) = branch_hash H b"
| "node_hash H (NLeaf l) = leaf_hash H l"

text \<open>
  The encodings as the specification words them: all 256 slots in index order and then
  the Value field; the Ext tag, the path fragment, the value.
\<close>

definition branch_encoding :: "branch \<Rightarrow> bytes" where
  "branch_encoding b = concat (map (\<lambda>i. Path_b b (of_nat i)) [0..<256]) @ Value_b b"

definition leaf_encoding :: "leaf \<Rightarrow> bytes" where
  "leaf_encoding l = Ext l # (Path l @ Value l)"

fun node_encoding :: "node \<Rightarrow> bytes" where
  "node_encoding (NBranch b) = branch_encoding b"
| "node_encoding (NLeaf l) = leaf_encoding l"

section \<open>Descend\<close>

text \<open>
  descend returns the Go triple \<^verbatim>\<open>([]byte, int, error)\<close>: the next reference (\<open>None\<close> for
  \<^verbatim>\<open>nil\<close>), the number of key bytes consumed and the error (\<open>None\<close> for \<^verbatim>\<open>nil\<close>); a run-time
  panic is \<open>Inl\<close>.
\<close>

type_synonym descended = "bytes option \<times> nat \<times> error option"

definition branch_descend :: "branch \<Rightarrow> bytes \<Rightarrow> panic + descended" where
  "branch_descend b key =
     pbind (elem_at key 0) (\<lambda>k0.
       let node = Path_b b k0 in
       if length node > 0 then Inr (Some node, 1, None)
       else Inr (None, 0, Some (ErrInvalidPatricia ''branch does not have path'')))"

text \<open>
  The loop of \<^verbatim>\<open>leaf.descend\<close>, entered with the current \<^verbatim>\<open>match\<close>:
  \<^verbatim>\<open>for l.Path[match] == key[match] { match++; if match == len(l.Path) { return l.Value, match, nil } }\<close>
  and, after it, \<^verbatim>\<open>return nil, match, ErrPathDiverge\<close>.
\<close>

function descend_loop :: "leaf \<Rightarrow> bytes \<Rightarrow> nat \<Rightarrow> panic + descended" where
  "descend_loop l key match =
     (if length (Path l) \<le> match then Inl (IndexOutOfRange match (length (Path l)))
      else if length key \<le> match then Inl (IndexOutOfRange match (length key))
      else if Path l ! match = key ! match then
        (if Suc match = length (Path l) then Inr (Some (Value l), Suc match, None)
         else descend_loop l key (Suc match))
      else Inr (None, match, Some ErrPathDiverge))"
  by pat_completeness auto
termination
  by (relation "measure (\<lambda>(l, key, match). length (Path l) - match)") auto

declare descend_loop.simps [simp del]

definition leaf_descend :: "leaf \<Rightarrow> bytes \<Rightarrow> panic + descended" where
  "leaf_descend l key = descend_loop l key 0"

fun descend :: "node \<Rightarrow> bytes \<Rightarrow> panic + descended" where
  "descend (NBranch b) key = branch_descend b key"
| "descend (NLeaf l) key = leaf_descend l key"

text \<open>
  The status of the specification (section 4.2) read off a result of descend: a non-nil
  error is Diverge; without error a leaf has Arrived and an extension or a branch says
  Continue. As in \<^verbatim>\<open>insert\<close> and \<^verbatim>\<open>blob\<close>, a \<^verbatim>\<open>leaf\<close> is an extension when \<^verbatim>\<open>Ext == 1\<close>.
\<close>

datatype status = Continue | Arrived | Diverge

fun descend_status :: "node \<Rightarrow> descended \<Rightarrow> status" where
  "descend_status n (next_ref, consumed, Some e) = Diverge"
| "descend_status (NBranch b) (next_ref, consumed, None) = Continue"
| "descend_status (NLeaf l) (next_ref, consumed, None) = (if Ext l = 1 then Continue else Arrived)"

section \<open>Insert\<close>

text \<open>
  The stack is a \<^verbatim>\<open>*list.List\<close> of nodes: \<^verbatim>\<open>PushBack\<close> appends, \<^verbatim>\<open>PushFront\<close> conses,
  \<^verbatim>\<open>Front\<close> is the head. insert returns its error (\<open>None\<close> for \<^verbatim>\<open>nil\<close>) with the stack as it
  leaves it.
\<close>

type_synonym inserted = "error option \<times> node list"

definition branch_insert :: "branch \<Rightarrow> bytes \<Rightarrow> bytes \<Rightarrow> node list \<Rightarrow> panic + inserted" where
  "branch_insert b k v stack =
     pbind (elem_at k 0) (\<lambda>k0.
       let node = Path_b b k0 in
       if length node > 0 then Inr (Some (ErrInvalidPatricia ''branch already covers path''), stack)
       else pbind (slice_from k 1) (\<lambda>k1.
         let l = \<lparr>Ext = 0, Path = k1, Value = v\<rparr> in
         Inr (None, stack @ [NLeaf l])))"

text \<open>
  The loop of \<^verbatim>\<open>leaf.insert\<close> and \<^verbatim>\<open>leaf.increase\<close>:
  \<^verbatim>\<open>for l.Path[match] == k[match] { match++ }\<close>; neither index is checked against a length.
\<close>

function match_loop :: "bytes \<Rightarrow> bytes \<Rightarrow> nat \<Rightarrow> panic + nat" where
  "match_loop p k match =
     (if length p \<le> match then Inl (IndexOutOfRange match (length p))
      else if length k \<le> match then Inl (IndexOutOfRange match (length k))
      else if p ! match = k ! match then match_loop p k (Suc match)
      else Inr match)"
  by pat_completeness auto
termination
  by (relation "measure (\<lambda>(p, k, match). length p - match)") auto

declare match_loop.simps [simp del]

text \<open>\<^verbatim>\<open>leaf.split(match, k, v, stack)\<close>; it always returns a nil error.\<close>

definition leaf_split ::
  "(bytes \<Rightarrow> bytes) \<Rightarrow> leaf \<Rightarrow> nat \<Rightarrow> bytes \<Rightarrow> bytes \<Rightarrow> node list \<Rightarrow> panic + inserted" where
  "leaf_split H l match k v stack =
     pbind (slice_from (Path l) match) (\<lambda>divPath.
     pbind (slice_from k 1) (\<lambda>k1.
       let l1 = \<lparr>Ext = 0, Path = k1, Value = v\<rparr>;
           hashl = leaf_hash H l1
       in
     pbind (elem_at k 0) (\<lambda>k0.
       let b = set_slot empty_branch k0 hashl in
       if length divPath = 1 then
         (let b = set_slot b (divPath ! 0) (Value l) in
          Inr (None, stack @ [NBranch b, NLeaf l1]))
       else if length divPath = 2 then
         (let b1 = set_slot empty_branch (divPath ! 1) (Value l);
              hashb = branch_hash H b1;
              b = set_slot b (divPath ! 0) hashb
          in Inr (None, stack @ [NBranch b, NBranch b1, NLeaf l1]))
       else
         pbind (slice_from divPath 1) (\<lambda>d1.
           let e = \<lparr>Ext = 1, Path = d1, Value = Value l\<rparr>;
               hashe = leaf_hash H e
           in
         pbind (elem_at divPath 0) (\<lambda>d0.
           let b = set_slot b d0 hashe in
           Inr (None, stack @ [NBranch b, NLeaf e, NLeaf l1]))))))"

text \<open>\<^verbatim>\<open>leaf.insert(k, v, stack)\<close>\<close>

definition leaf_insert ::
  "(bytes \<Rightarrow> bytes) \<Rightarrow> leaf \<Rightarrow> bytes \<Rightarrow> bytes \<Rightarrow> node list \<Rightarrow> panic + inserted" where
  "leaf_insert H l k v stack =
     pbind (match_loop (Path l) k 0) (\<lambda>match.
       if match = length (Path l) then
         Inr (Some (ErrInvalidPatricia ''leaf already has total matching path''), stack)
       else if Ext l = 1 then
         (if length (Path l) = 1 then
            Inr (Some (ErrInvalidPatricia ''ext should not have path length = 1''), stack)
          else
            pbind (slice_from k match) (\<lambda>km.
            pbind (leaf_split H l match km v stack) (\<lambda>(err, stack).
              case err of
                Some e \<Rightarrow> Inr (Some e, stack)
              | None \<Rightarrow>
                 (case stack of
                    [] \<Rightarrow> Inl NilDereference
                  | n # _ \<Rightarrow>
                     let hash = node_hash H n in
                     if match = 1 then
                       pbind (elem_at (Path l) 0) (\<lambda>p0.
                         let b = set_slot empty_branch p0 hash in
                         Inr (None, NBranch b # stack))
                     else if match > 1 then
                       pbind (slice_to (Path l) match) (\<lambda>pm.
                         let e = \<lparr>Ext = 1, Path = pm, Value = hash\<rparr> in
                         Inr (None, NLeaf e # stack))
                     else Inr (None, stack)))))
       else
         pbind (slice_from (Path l) (match + 1)) (\<lambda>p1.
           let l1 = \<lparr>Ext = 0, Path = p1, Value = Value l\<rparr>;
               hashl1 = leaf_hash H l1
           in
         pbind (slice_from k (match + 1)) (\<lambda>k1.
           let l2 = \<lparr>Ext = 0, Path = k1, Value = v\<rparr>;
               hashl2 = leaf_hash H l2
           in
         pbind (elem_at (Path l) match) (\<lambda>pm.
           let b = set_slot empty_branch pm hashl1 in
         pbind (elem_at k match) (\<lambda>km.
           let b = set_slot b km hashl2;
               stack = stack @ [NBranch b, NLeaf l1, NLeaf l2]
           in
           if match > 0 then
             (let hashb = branch_hash H b in
              pbind (slice_to k match) (\<lambda>kp.
                let e = \<lparr>Ext = 1, Path = kp, Value = hashb\<rparr> in
                Inr (None, NLeaf e # stack)))
           else Inr (None, stack))))))"

fun insert_node ::
  "(bytes \<Rightarrow> bytes) \<Rightarrow> node \<Rightarrow> bytes \<Rightarrow> bytes \<Rightarrow> node list \<Rightarrow> panic + inserted" where
  "insert_node H (NBranch b) k v stack = branch_insert b k v stack"
| "insert_node H (NLeaf l) k v stack = leaf_insert H l k v stack"

text \<open>\<^verbatim>\<open>leaf.increase(key)\<close>: the numbers of branches, extensions and leaves insert adds.\<close>

definition leaf_increase :: "leaf \<Rightarrow> bytes \<Rightarrow> panic + (nat \<times> nat \<times> nat)" where
  "leaf_increase l key =
     pbind (match_loop (Path l) key 0) (\<lambda>match.
       if match > 0 then Inr (1, 1, 2) else Inr (1, 0, 2))"

section \<open>Collapse\<close>

text \<open>\<^verbatim>\<open>append(a, b...)\<close> on slices that may be nil.\<close>

fun contents :: "bytes option \<Rightarrow> bytes" where
  "contents None = []"
| "contents (Some s) = s"

fun go_append :: "bytes option \<Rightarrow> bytes option \<Rightarrow> bytes option" where
  "go_append None b = (if contents b = [] then None else Some (contents b))"
| "go_append (Some a) b = Some (a @ contents b)"

text \<open>\<^verbatim>\<open>branch.trim(index)\<close>\<close>

definition trim :: "branch \<Rightarrow> byte \<Rightarrow> branch" where
  "trim b index = set_slot b index []"

text \<open>
  The counting loop of \<^verbatim>\<open>branch.collapse\<close>, with its variables \<^verbatim>\<open>nb\<close>, \<^verbatim>\<open>key\<close> and \<^verbatim>\<open>value\<close>.
\<close>

function collapse_loop ::
  "branch \<Rightarrow> nat \<Rightarrow> nat \<times> bytes option \<times> bytes option \<Rightarrow> nat \<times> bytes option \<times> bytes option" where
  "collapse_loop b i (nb, key, value) =
     (if i < RADIX then
        (if length (Path_b b (of_nat i)) > 0
         then collapse_loop b (Suc i) (Suc nb, Some [of_nat i], Some (Path_b b (of_nat i)))
         else collapse_loop b (Suc i) (nb, key, value))
      else (nb, key, value))"
  by pat_completeness auto
termination
  by (relation "measure (\<lambda>(b, i, s). RADIX - i)") auto

declare collapse_loop.simps [simp del]

text \<open>
  \<^verbatim>\<open>branch.collapse(k, v, index, childClps)\<close>; the receiver is mutated by \<^verbatim>\<open>trim\<close>, so the
  branch as it is left is returned with the Go triple.
\<close>

definition branch_collapse ::
  "branch \<Rightarrow> bytes option \<Rightarrow> bytes option \<Rightarrow> byte \<Rightarrow> bool
     \<Rightarrow> branch \<times> bytes option \<times> bytes option \<times> bool" where
  "branch_collapse b k v index childClps =
     (if \<not> childClps then (b, k, v, False)
      else
        let (b, k) = (if v = None then (trim b index, None) else (b, k));
            (nb, key, value) = collapse_loop b 0 (0, None, None)
        in
        if nb = 1 then (b, go_append key k, value, True)
        else (b, k, v, False))"

section \<open>Properties of hashing\<close>

lemma hash_loop_concat:
  "i \<le> RADIX \<Longrightarrow>
   hash_loop b i stream = stream @ concat (map (\<lambda>j. Path_b b (of_nat j)) [i..<RADIX])"
proof (induction b i stream rule: hash_loop.induct)
  case (1 b i stream)
  show ?case
  proof (cases "i < RADIX")
    case True
    then have "hash_loop b i stream = hash_loop b (Suc i) (stream @ Path_b b (of_nat i))"
      by (simp add: hash_loop.simps)
    also have "\<dots> = (stream @ Path_b b (of_nat i))
        @ concat (map (\<lambda>j. Path_b b (of_nat j)) [Suc i..<RADIX])"
      using True by (intro "1.IH") simp_all
    also have "\<dots> = stream @ concat (map (\<lambda>j. Path_b b (of_nat j)) [i..<RADIX])"
      using True by (simp add: upt_conv_Cons)
    finally show ?thesis .
  next
    case False
    then show ?thesis by (simp add: hash_loop.simps)
  qed
qed

text \<open>
  C1. For every node, hash() is the digest \<open>H\<close> (BLAKE2b-256) of the node's encoding: for a
  branch the 256 slots in index order followed by Value, for a leaf or an extension the Ext
  byte, then the path fragment, then the value or child hash.
\<close>

theorem node_hash_encoding:
  "node_hash H n = H (node_encoding n)"
proof (cases n)
  case (NBranch b)
  have "hash_loop b 0 [] = concat (map (\<lambda>j. Path_b b (of_nat j)) [0..<256])"
    using hash_loop_concat [of 0 b "[]"] by (simp add: RADIX_def)
  then show ?thesis
    using NBranch by (simp add: branch_hash_def branch_encoding_def)
next
  case (NLeaf l)
  then show ?thesis
    by (simp add: leaf_hash_def leaf_encoding_def)
qed

end
